theory Spec2Isabelle
  imports Complex_Main "HOL-Library.Word"
begin

section \<open>The cemuhookudp client of \<^verbatim>\<open>src/input_common/udp/client.cpp\<close>\<close>

text \<open>
  The file holds two classes. \<^verbatim>\<open>Socket\<close> owns a UDP socket, a timer and three buffers,
  and reacts to two kinds of completion: a datagram has arrived (\<^verbatim>\<open>HandleReceive\<close>) and
  the timer has expired (\<^verbatim>\<open>HandleSend\<close>). \<^verbatim>\<open>Client\<close> owns the socket and supplies the
  three callbacks \<^verbatim>\<open>OnVersion\<close>, \<^verbatim>\<open>OnPortInfo\<close> and \<^verbatim>\<open>OnPadData\<close>; the last one
  filters stale packets and writes motion and touch into the shared \<^verbatim>\<open>DeviceStatus\<close>.

  Every member function becomes a function on an explicit state. The handlers run one
  after the other on the single thread of \<^verbatim>\<open>io_service.run()\<close>, so the model is
  sequential; the \<^verbatim>\<open>std::lock_guard\<close> around the writes of \<^verbatim>\<open>OnPadData\<close> has no
  counterpart here.
\<close>

subsection \<open>Scalars\<close>

type_synonym u8 = "8 word"
type_synonym u16 = "16 word"
type_synonym u32 = "32 word"

text \<open>
  A \<^verbatim>\<open>float\<close> is represented by what it denotes: a number, one of the two infinities, or
  a NaN. The two zeros are one value, and all NaNs are one value. Rounding to 24
  significant bits is not modelled: the only arithmetic the file performs on floats is
  negation, which is exact, and the division of two integers of magnitude below
  \<open>2 ^ 16\<close>, whose correctly rounded quotient lies in \<open>[0, 1]\<close> exactly when the
  quotient itself does.
\<close>

datatype f32 = Finite rat | PosInf | NegInf | NaN

fun fneg :: "f32 \<Rightarrow> f32" where
  "fneg (Finite r) = Finite (- r)"
| "fneg PosInf = NegInf"
| "fneg NegInf = PosInf"
| "fneg NaN = NaN"

text \<open>\<^verbatim>\<open>static_cast<float>\<close> of an \<^verbatim>\<open>int\<close>, and the conversion of an \<^verbatim>\<open>int\<close> operand
  that meets a \<^verbatim>\<open>float\<close> one.\<close>

definition f32_of_int :: "int \<Rightarrow> f32" where
  "f32_of_int i = Finite (of_int i)"

text \<open>
  IEEE division. A zero divisor is the positive zero here, since every divisor of the
  file is converted from an \<^verbatim>\<open>int\<close>: \<open>0 / 0\<close> is a NaN and \<open>a / 0\<close> is the infinity
  of the sign of \<open>a\<close>. Nothing traps.
\<close>

fun fdiv :: "f32 \<Rightarrow> f32 \<Rightarrow> f32" where
  "fdiv NaN _ = NaN"
| "fdiv _ NaN = NaN"
| "fdiv (Finite a) (Finite b) =
     (if b = 0 then (if a = 0 then NaN else if 0 < a then PosInf else NegInf)
      else Finite (a / b))"
| "fdiv (Finite a) PosInf = Finite 0"
| "fdiv (Finite a) NegInf = Finite 0"
| "fdiv PosInf (Finite b) = (if 0 \<le> b then PosInf else NegInf)"
| "fdiv NegInf (Finite b) = (if 0 \<le> b then NegInf else PosInf)"
| "fdiv PosInf PosInf = NaN"
| "fdiv PosInf NegInf = NaN"
| "fdiv NegInf PosInf = NaN"
| "fdiv NegInf NegInf = NaN"

text \<open>Membership in the closed unit interval; no infinity and no NaN is a member.\<close>

fun in_unit_interval :: "f32 \<Rightarrow> bool" where
  "in_unit_interval (Finite r) = (0 \<le> r \<and> r \<le> 1)"
| "in_unit_interval PosInf = False"
| "in_unit_interval NegInf = False"
| "in_unit_interval NaN = False"

text \<open>What escapes a handler instead of a return value: the exception of a
  \<^verbatim>\<open>send_to\<close> that fails.\<close>

type_synonym error_code = nat

datatype error = system_error error_code

text \<open>
  \<^verbatim>\<open>std::clamp(v, lo, hi)\<close> as the standard library of GCC computes it,
  \<^verbatim>\<open>std::min(std::max(v, lo), hi)\<close>: the value \<open>v\<close> brought into \<open>[lo, hi]\<close>. The
  call always returns. For \<open>hi < lo\<close>, where the C++ standard promises nothing, what it
  returns is \<open>hi\<close>.
\<close>

definition clamp :: "u16 \<Rightarrow> u16 \<Rightarrow> u16 \<Rightarrow> u16" where
  "clamp v lo hi = min (max v lo) hi"

subsection \<open>Protocol structures\<close>

text \<open>
  \<^verbatim>\<open>protocol.h\<close> is not part of the source at hand. The records below list the fields
  that \<^verbatim>\<open>client.cpp\<close> reads, with the widths the specification gives them; whatever
  else a structure holds lives in the record's extension slot.
\<close>

record Accelerometer =
  x :: f32
  y :: f32
  z :: f32

record Gyroscope =
  pitch :: f32
  yaw :: f32
  roll :: f32

record TouchPad =
  is_active :: u8
  x :: u16
  y :: u16

record Response_Version =
  version :: u16

record Response_PortInfo =
  model :: u8

record Response_PadData =
  packet_counter :: u32
  accel :: Accelerometer
  gyro :: Gyroscope
  touch_1 :: TouchPad

text \<open>
  \<^verbatim>\<open>enum class Type\<close>: the three enumerators that \<^verbatim>\<open>HandleReceive\<close> switches on, and
  \<open>Unrecognized\<close> for any other value of the enumeration type, for which the switch has
  no case.
\<close>

datatype Type = Version | PortInfo | PadData | Unrecognized

text \<open>The two request payloads, with the members in the order of their aggregate
  initialisers in \<^verbatim>\<open>HandleSend\<close>. Of \<^verbatim>\<open>Request::PadData::Flags\<close> only \<^verbatim>\<open>Id\<close> is used.\<close>

datatype Flags = Flags_Id | Flags_other

datatype Request_PortInfo = Request_PortInfo nat "u8 list"

datatype Request_PadData = Request_PadData Flags nat "u8 list"

text \<open>Modelled from the spec: the constant \<^verbatim>\<open>EMPTY_MAC_ADDRESS\<close> of \<^verbatim>\<open>protocol.h\<close>,
  which is not part of the source at hand; the specification calls it an all-zero MAC
  placeholder. A MAC address has six bytes.\<close>

definition EMPTY_MAC_ADDRESS :: "u8 list" where
  "EMPTY_MAC_ADDRESS = replicate 6 0"

subsection \<open>The shared status and the client\<close>

datatype 'a Vec3 = MakeVec (vec_x: 'a) (vec_y: 'a) (vec_z: 'a)

record CalibrationData =
  min_x :: u16
  min_y :: u16
  max_x :: u16
  max_y :: u16

record DeviceStatus =
  motion_status :: "f32 Vec3 \<times> f32 Vec3"
  touch_status :: "f32 \<times> f32 \<times> bool"
  touch_calibration :: "CalibrationData option"

text \<open>The diagnostics of \<^verbatim>\<open>LOG_TRACE\<close> and \<^verbatim>\<open>LOG_WARNING\<close>: the level, the format
  string and the arguments, oldest first.\<close>

datatype Level = Trace | Warning

datatype LogEntry = LogEntry Level string "nat list"

record Client =
  status :: DeviceStatus
  packet_sequence :: u32
  log_output :: "LogEntry list"

definition LOG :: "Level \<Rightarrow> string \<Rightarrow> nat list \<Rightarrow> Client \<Rightarrow> Client" where
  "LOG lvl fmt args c = c\<lparr>log_output := log_output c @ [LogEntry lvl fmt args]\<rparr>"

definition OnVersion :: "Response_Version \<Rightarrow> Client \<Rightarrow> Client" where
  "OnVersion data c =
     LOG Trace ''Version packet received: {}'' [unat (Response_Version.version data)] c"

definition OnPortInfo :: "Response_PortInfo \<Rightarrow> Client \<Rightarrow> Client" where
  "OnPortInfo data c =
     LOG Trace ''PortInfo packet received: {}'' [unat (model data)] c"

text \<open>Lines 163 and 164: the two vectors built from the packet.\<close>

definition remap_accel :: "Accelerometer \<Rightarrow> f32 Vec3" where
  "remap_accel a =
     MakeVec (fneg (Accelerometer.x a)) (Accelerometer.y a) (fneg (Accelerometer.z a))"

definition remap_gyro :: "Gyroscope \<Rightarrow> f32 Vec3" where
  "remap_gyro g = MakeVec (fneg (pitch g)) (fneg (yaw g)) (roll g)"

text \<open>
  Lines 183 to 186, for one axis: the clamped raw coordinate and the lower bound are
  promoted to \<^verbatim>\<open>int\<close> and subtracted, the difference of the bounds is an \<^verbatim>\<open>int\<close> cast
  to \<^verbatim>\<open>float\<close>, and the quotient is a \<^verbatim>\<open>float\<close> division. There is no test of the
  divisor.
\<close>

definition scale_axis :: "u16 \<Rightarrow> u16 \<Rightarrow> u16 \<Rightarrow> f32" where
  "scale_axis raw lo hi =
     fdiv (f32_of_int (uint (clamp raw lo hi) - uint lo)) (f32_of_int (uint hi - uint lo))"

text \<open>Lines 174 to 187: \<open>x\<close> and \<open>y\<close> start as 0 and are overwritten under the guard.\<close>

definition touch_xy :: "bool \<Rightarrow> CalibrationData option \<Rightarrow> TouchPad \<Rightarrow> f32 \<times> f32" where
  "touch_xy active calibration t =
     (if active \<and> calibration \<noteq> None then
        (let cal = the calibration;
             fx = scale_axis (TouchPad.x t) (min_x cal) (max_x cal);
             fy = scale_axis (TouchPad.y t) (min_y cal) (max_y cal)
         in (fx, fy))
      else (f32_of_int 0, f32_of_int 0))"

text \<open>\<^verbatim>\<open>OnPadData\<close> has one early exit, the \<^verbatim>\<open>return\<close> of the stale branch; past it,
  every statement up to the write of \<^verbatim>\<open>touch_status\<close> is executed.\<close>

definition OnPadData :: "Response_PadData \<Rightarrow> Client \<Rightarrow> Client" where
  "OnPadData data c0 =
     (let c1 = LOG Trace ''PadData packet received'' [] c0 in
      if packet_counter data \<le> packet_sequence c1 then
        LOG Warning
          ''PadData packet dropped because its stale info. Current count: {} Packet count: {}''
          [unat (packet_sequence c1), unat (packet_counter data)] c1
      else
        let c2 = c1\<lparr>packet_sequence := packet_counter data\<rparr>;
            accel = remap_accel (Response_PadData.accel data);
            gyro = remap_gyro (Response_PadData.gyro data);
            st = (status c2)\<lparr>motion_status := (accel, gyro)\<rparr>;
            active = (is_active (touch_1 data) \<noteq> 0);
            (fx, fy) = touch_xy active (touch_calibration st) (touch_1 data)
        in c2\<lparr>status := st\<lparr>touch_status := (fx, fy, active)\<rparr>\<rparr>)"

subsection \<open>The socket\<close>

text \<open>
  A time point of \<^verbatim>\<open>std::chrono::system_clock\<close> is a number of seconds since the
  clock's epoch; the clock ticks in fractions of a second, so the number is rational.
\<close>

type_synonym time_point = rat

definition seconds :: "int \<Rightarrow> rat" where
  "seconds n = of_int n"

type_synonym endpoint = "string \<times> u16"

text \<open>
  The parts of \<^verbatim>\<open>protocol.h\<close> and \<^verbatim>\<open>protocol.cpp\<close> that the socket calls, taken as
  parameters: the size of the receive buffer, the validator, the three payload
  structures read by \<^verbatim>\<open>memcpy\<close> from the bytes behind the header, and the two
  instances of \<^verbatim>\<open>Request::Create\<close>, each giving the bytes of the finished message.
\<close>

record Codec =
  MAX_PACKET_SIZE :: nat
  Validate :: "u8 list \<Rightarrow> nat \<Rightarrow> Type option"
  read_Version :: "u8 list \<Rightarrow> Response_Version"
  read_PortInfo :: "u8 list \<Rightarrow> Response_PortInfo"
  read_PadData :: "u8 list \<Rightarrow> Response_PadData"
  Create_PortInfo :: "Request_PortInfo \<Rightarrow> u32 \<Rightarrow> u8 list"
  Create_PadData :: "Request_PadData \<Rightarrow> u32 \<Rightarrow> u8 list"

text \<open>\<^verbatim>\<open>struct SocketCallback\<close>: three functions returning \<^verbatim>\<open>void\<close>. A callback acts
  on the state \<open>'c\<close> of whoever registered it.\<close>

record 'c SocketCallback =
  version :: "Response_Version \<Rightarrow> 'c \<Rightarrow> 'c"
  port_info :: "Response_PortInfo \<Rightarrow> 'c \<Rightarrow> 'c"
  pad_data :: "Response_PadData \<Rightarrow> 'c \<Rightarrow> 'c"

text \<open>
  The members of \<^verbatim>\<open>Socket\<close>, and what the Boost objects among them hold: the expiry
  of the timer and whether a wait on it is outstanding, whether a receive is
  outstanding, and the datagrams that \<^verbatim>\<open>send_to\<close> has handed to the network, oldest
  first. The member \<^verbatim>\<open>callback\<close> is a parameter of the functions that call it.
\<close>

record Socket =
  client_id :: u32
  send_endpoint :: endpoint
  timer_expiry :: time_point
  timer_waiting :: bool
  receive_waiting :: bool
  send_buffer1 :: "u8 list"
  send_buffer2 :: "u8 list"
  receive_buffer :: "u8 list"
  sent :: "(u8 list \<times> endpoint) list"

definition StartSend :: "time_point \<Rightarrow> Socket \<Rightarrow> Socket" where
  "StartSend from s = s\<lparr>timer_expiry := from + seconds 3, timer_waiting := True\<rparr>"

definition StartReceive :: "Socket \<Rightarrow> Socket" where
  "StartReceive s = s\<lparr>receive_waiting := True\<rparr>"

text \<open>
  The two-argument \<^verbatim>\<open>socket.send_to(buffer, endpoint)\<close> of Boost.Asio returns the number
  of bytes sent, or throws \<^verbatim>\<open>boost::system::system_error\<close> when the operating system
  refuses the datagram. Which of the two happens is decided outside the program. An
  exception is the value \<open>Inl (e, s)\<close>: the error, and the state in which it was thrown,
  so that what had been done before the throw stays visible.
\<close>

datatype send_outcome = Sent nat | Refused error_code

definition send_to ::
  "send_outcome \<Rightarrow> u8 list \<Rightarrow> endpoint \<Rightarrow> Socket \<Rightarrow> error \<times> Socket + nat \<times> Socket" where
  "send_to outcome buffer destination s =
     (case outcome of
        Refused ec \<Rightarrow> Inl (system_error ec, s)
      | Sent n \<Rightarrow> Inr (n, s\<lparr>sent := sent s @ [(buffer, destination)]\<rparr>))"

text \<open>
  \<^verbatim>\<open>HandleSend\<close> does not read its \<^verbatim>\<open>error\<close> argument, does not use the two lengths,
  and has no \<^verbatim>\<open>try\<close> block: an exception of either \<^verbatim>\<open>send_to\<close> leaves the handler
  at once.
\<close>

definition HandleSend ::
  "Codec \<Rightarrow> error_code \<Rightarrow> send_outcome \<Rightarrow> send_outcome \<Rightarrow> Socket \<Rightarrow> error \<times> Socket + Socket" where
  "HandleSend cd err outcome1 outcome2 s0 =
     (let port_info = Request_PortInfo 1 [0, 0, 0, 0];
          port_message = Create_PortInfo cd port_info (client_id s0);
          s1 = s0\<lparr>send_buffer1 := port_message\<rparr>
      in case send_to outcome1 (send_buffer1 s1) (send_endpoint s1) s1 of
           Inl thrown \<Rightarrow> Inl thrown
         | Inr (len, s2) \<Rightarrow>
             (let pad_data = Request_PadData Flags_Id 0 EMPTY_MAC_ADDRESS;
                  pad_message = Create_PadData cd pad_data (client_id s2);
                  s3 = s2\<lparr>send_buffer2 := pad_message\<rparr>
              in case send_to outcome2 (send_buffer2 s3) (send_endpoint s3) s3 of
                   Inl thrown \<Rightarrow> Inl thrown
                 | Inr (len2, s4) \<Rightarrow> Inr (StartSend (timer_expiry s4) s4)))"

text \<open>
  Lines 61 to 83, the \<^verbatim>\<open>if\<close> of \<^verbatim>\<open>HandleReceive\<close> with its \<^verbatim>\<open>switch\<close>: nothing
  happens unless the validator names one of the three types, and then the callback of
  that type is called with the payload read from the buffer. \<^verbatim>\<open>HandleReceive\<close> does
  not read its \<^verbatim>\<open>error\<close> argument either, and calls \<^verbatim>\<open>StartReceive\<close> as its last
  statement.
\<close>

definition dispatch :: "Codec \<Rightarrow> 'c SocketCallback \<Rightarrow> u8 list \<Rightarrow> nat \<Rightarrow> 'c \<Rightarrow> 'c" where
  "dispatch cd callback buffer bytes_transferred c =
     (case Validate cd buffer bytes_transferred of
        None \<Rightarrow> c
      | Some Version \<Rightarrow> SocketCallback.version callback (read_Version cd buffer) c
      | Some PortInfo \<Rightarrow> port_info callback (read_PortInfo cd buffer) c
      | Some PadData \<Rightarrow> pad_data callback (read_PadData cd buffer) c
      | Some Unrecognized \<Rightarrow> c)"

definition HandleReceive ::
  "Codec \<Rightarrow> 'c SocketCallback \<Rightarrow> error_code \<Rightarrow> nat \<Rightarrow> Socket \<times> 'c \<Rightarrow> Socket \<times> 'c" where
  "HandleReceive cd callback err bytes_transferred sc =
     (let c' = dispatch cd callback (receive_buffer (fst sc)) bytes_transferred (snd sc)
      in (StartReceive (fst sc), c'))"

text \<open>
  \<^verbatim>\<open>Loop\<close>, that is \<^verbatim>\<open>io_service.run()\<close>, for one finite run of what the outside
  world does: the timer reaches its expiry, a datagram arrives, or the owner's thread
  calls \<^verbatim>\<open>Stop\<close>, that is \<^verbatim>\<open>io_service.stop()\<close>. A completion is delivered only to
  an outstanding operation, which it uses up; an exception that leaves a handler leaves
  \<^verbatim>\<open>run\<close>; after \<^verbatim>\<open>stop\<close> no handler is called and \<^verbatim>\<open>run\<close> returns. An arriving
  datagram overwrites the front of the receive buffer, cut to the buffer's size. The
  end of the list is the moment up to which the run is observed.
\<close>

datatype Event =
  TimerExpires error_code send_outcome send_outcome
| DatagramArrives error_code "u8 list"
| StopRequested

definition expire :: "Socket \<Rightarrow> Socket" where
  "expire s = s\<lparr>timer_waiting := False\<rparr>"

definition deliver :: "nat \<Rightarrow> u8 list \<Rightarrow> Socket \<Rightarrow> Socket" where
  "deliver n data s =
     s\<lparr>receive_waiting := False, receive_buffer := take n data @ drop n (receive_buffer s)\<rparr>"

fun Loop ::
  "Codec \<Rightarrow> 'c SocketCallback \<Rightarrow> Event list \<Rightarrow> Socket \<times> 'c
     \<Rightarrow> error \<times> (Socket \<times> 'c) + Socket \<times> 'c" where
  "Loop cd callback [] sc = Inr sc"
| "Loop cd callback (StopRequested # evs) sc = Inr sc"
| "Loop cd callback (TimerExpires ec o1 o2 # evs) sc =
     (if timer_waiting (fst sc) then
        (case HandleSend cd ec o1 o2 (expire (fst sc)) of
           Inl (e, s') \<Rightarrow> Inl (e, (s', snd sc))
         | Inr s' \<Rightarrow> Loop cd callback evs (s', snd sc))
      else Loop cd callback evs sc)"
| "Loop cd callback (DatagramArrives ec data # evs) sc =
     (if receive_waiting (fst sc) then
        (let n = min (length data) (MAX_PACKET_SIZE cd)
         in Loop cd callback evs (HandleReceive cd callback ec n (deliver n data (fst sc), snd sc)))
      else Loop cd callback evs sc)"

text \<open>\<^verbatim>\<open>SocketLoop\<close>, the body of the client's thread; \<open>now\<close> is the value of
  \<^verbatim>\<open>clock::now()\<close>.\<close>

definition SocketLoop ::
  "Codec \<Rightarrow> 'c SocketCallback \<Rightarrow> time_point \<Rightarrow> Event list \<Rightarrow> Socket \<times> 'c
     \<Rightarrow> error \<times> (Socket \<times> 'c) + Socket \<times> 'c" where
  "SocketLoop cd callback now evs sc =
     Loop cd callback evs (StartSend now (StartReceive (fst sc)), snd sc)"

text \<open>The three closures that the constructor of \<^verbatim>\<open>Client\<close> registers.\<close>

definition Client_callback :: "Client SocketCallback" where
  "Client_callback =
     \<lparr>version = (\<lambda>v c. OnVersion v c),
      port_info = (\<lambda>info c. OnPortInfo info c),
      pad_data = (\<lambda>data c. OnPadData data c)\<rparr>"

subsection \<open>Notions used in the statements\<close>

text \<open>\<^verbatim>\<open>OnPadData\<close> accepts a packet: the counter of the packet is above the stored one,
  and the call leaves the client \<open>c'\<close>.\<close>

definition accepted :: "Response_PadData \<Rightarrow> Client \<Rightarrow> Client \<Rightarrow> bool" where
  "accepted data c c' = (packet_sequence c < packet_counter data \<and> OnPadData data c = c')"

text \<open>
  The touch formula in the words of the specification: the raw coordinate is clamped into
  \<open>[lo, hi]\<close> and then mapped linearly, \<open>(clamp v - lo) / (hi - lo)\<close>, where the
  division is the one of floats. Clamping raises the value to \<open>lo\<close> and then lowers it
  to \<open>hi\<close>; on an interval with \<open>lo \<le> hi\<close> the order of the two steps does not
  matter.
\<close>

definition spec_clamp :: "int \<Rightarrow> int \<Rightarrow> int \<Rightarrow> int" where
  "spec_clamp v lo hi = min hi (max lo v)"

definition spec_normalize :: "int \<Rightarrow> int \<Rightarrow> int \<Rightarrow> f32" where
  "spec_normalize v lo hi = fdiv (f32_of_int (spec_clamp v lo hi - lo)) (f32_of_int (hi - lo))"

text \<open>The calibration, when there is one, has its lower bound strictly below its upper
  bound on both axes.\<close>

fun strictly_ordered :: "CalibrationData option \<Rightarrow> bool" where
  "strictly_ordered None = True"
| "strictly_ordered (Some cal) = (min_x cal < max_x cal \<and> min_y cal < max_y cal)"

text \<open>A stored vector read as a sample of the protocol again, component by component.\<close>

definition as_accel :: "f32 Vec3 \<Rightarrow> Accelerometer" where
  "as_accel v = \<lparr>Accelerometer.x = vec_x v, y = vec_y v, z = vec_z v\<rparr>"

definition as_gyro :: "f32 Vec3 \<Rightarrow> Gyroscope" where
  "as_gyro v = \<lparr>pitch = vec_x v, yaw = vec_y v, roll = vec_z v\<rparr>"

text \<open>Inputs for the examples: a client with a given stored counter and calibration whose
  status is all zero, the calibration of the specification's example, and a packet with
  a given counter and touch point whose motion is \<open>accel = (1, 2, 3)\<close>,
  \<open>gyro = (4, 5, 6)\<close>.\<close>

abbreviation (input) zero_motion :: "f32 Vec3 \<times> f32 Vec3" where
  "zero_motion \<equiv> (MakeVec (Finite 0) (Finite 0) (Finite 0), MakeVec (Finite 0) (Finite 0) (Finite 0))"

abbreviation (input) client_at :: "u32 \<Rightarrow> CalibrationData option \<Rightarrow> Client" where
  "client_at n cal \<equiv>
     \<lparr>status = \<lparr>motion_status = zero_motion, touch_status = (Finite 0, Finite 0, False),
                touch_calibration = cal\<rparr>,
      packet_sequence = n, log_output = []\<rparr>"

abbreviation (input) calibration_100_200_50_150 :: CalibrationData where
  "calibration_100_200_50_150 \<equiv> \<lparr>min_x = 100, min_y = 50, max_x = 200, max_y = 150\<rparr>"

abbreviation (input) packet :: "u32 \<Rightarrow> u8 \<Rightarrow> u16 \<Rightarrow> u16 \<Rightarrow> Response_PadData" where
  "packet n active tx ty \<equiv>
     \<lparr>packet_counter = n,
      accel = \<lparr>Accelerometer.x = Finite 1, y = Finite 2, z = Finite 3\<rparr>,
      gyro = \<lparr>pitch = Finite 4, yaw = Finite 5, roll = Finite 6\<rparr>,
      touch_1 = \<lparr>is_active = active, x = tx, y = ty\<rparr>\<rparr>"

text \<open>The number of timer expiries among the events of a run.\<close>

fun expiries :: "Event list \<Rightarrow> nat" where
  "expiries [] = 0"
| "expiries (TimerExpires ec o1 o2 # evs) = Suc (expiries evs)"
| "expiries (ev # evs) = expiries evs"

text \<open>A socket as the constructor leaves it, for client 7 and the peer
  \<open>127.0.0.1:26760\<close>, and a small codec for the examples: the first byte of a
  datagram is its type tag (0, 1, 2 for the three responses, 3 for a tag the switch
  does not know), the second byte is the payload, and a datagram of fewer than two
  bytes is not valid. A request is encoded as its kind and the client's identifier.\<close>

abbreviation (input) example_socket :: Socket where
  "example_socket \<equiv>
     \<lparr>client_id = 7, send_endpoint = (''127.0.0.1'', 26760), timer_expiry = 0,
      timer_waiting = False, receive_waiting = False,
      send_buffer1 = [], send_buffer2 = [], receive_buffer = replicate 100 0, sent = []\<rparr>"

abbreviation (input) example_codec :: Codec where
  "example_codec \<equiv>
     \<lparr>MAX_PACKET_SIZE = 100,
      Validate = (\<lambda>buffer n.
        if n < 2 then None
        else if buffer ! 0 = 0 then Some Version
        else if buffer ! 0 = 1 then Some PortInfo
        else if buffer ! 0 = 2 then Some PadData
        else if buffer ! 0 = 3 then Some Unrecognized
        else None),
      read_Version = (\<lambda>buffer. \<lparr>Response_Version.version = ucast (buffer ! 1)\<rparr>),
      read_PortInfo = (\<lambda>buffer. \<lparr>model = buffer ! 1\<rparr>),
      read_PadData = (\<lambda>buffer. packet (ucast (buffer ! 1)) 1 250 0),
      Create_PortInfo = (\<lambda>request id. [1, ucast id]),
      Create_PadData = (\<lambda>request id. [2, ucast id])\<rparr>"

section \<open>Properties\<close>

subsection \<open>The two branches of \<^verbatim>\<open>OnPadData\<close>\<close>

lemma OnPadData_stale:
  "packet_counter data \<le> packet_sequence c \<Longrightarrow>
   OnPadData data c =
     LOG Warning
       ''PadData packet dropped because its stale info. Current count: {} Packet count: {}''
       [unat (packet_sequence c), unat (packet_counter data)]
       (LOG Trace ''PadData packet received'' [] c)"
  by (simp add: OnPadData_def LOG_def Let_def)

lemma OnPadData_fresh:
  "packet_sequence c < packet_counter data \<Longrightarrow>
   OnPadData data c =
     c\<lparr>status := (status c)\<lparr>motion_status :=
                                 (remap_accel (Response_PadData.accel data),
                                  remap_gyro (Response_PadData.gyro data)),
                               touch_status :=
                                 (fst (touch_xy (is_active (touch_1 data) \<noteq> 0)
                                         (touch_calibration (status c)) (touch_1 data)),
                                  snd (touch_xy (is_active (touch_1 data) \<noteq> 0)
                                         (touch_calibration (status c)) (touch_1 data)),
                                  is_active (touch_1 data) \<noteq> 0)\<rparr>,
        packet_sequence := packet_counter data,
        log_output := log_output c @ [LogEntry Trace ''PadData packet received'' []]\<rparr>"
  by (simp add: OnPadData_def LOG_def Let_def not_le split: prod.splits)

lemma accepted_exists:
  "packet_sequence c < packet_counter data \<Longrightarrow> \<exists>c'. accepted data c c'"
  by (simp add: accepted_def)

lemma spec_clamp_ordered:
  "lo \<le> hi \<Longrightarrow> spec_clamp v lo hi = max lo (min v hi)"
  by (simp add: spec_clamp_def max_def min_def)

lemma scale_axis_spec:
  "scale_axis raw lo hi = spec_normalize (uint raw) (uint lo) (uint hi)"
proof -
  have "uint (clamp raw lo hi) = spec_clamp (uint raw) (uint lo) (uint hi)"
    by (simp add: clamp_def spec_clamp_def max_def min_def word_le_def)
  then show ?thesis
    by (simp add: scale_axis_def spec_normalize_def)
qed

lemma spec_normalize_exact:
  "lo < hi \<Longrightarrow>
   spec_normalize v lo hi = Finite (of_int (spec_clamp v lo hi - lo) / of_int (hi - lo))"
  by (simp add: spec_normalize_def f32_of_int_def)

lemma spec_normalize_unit:
  assumes "lo < hi"
  shows "in_unit_interval (spec_normalize v lo hi)"
proof -
  have "0 \<le> spec_clamp v lo hi - lo" "spec_clamp v lo hi - lo \<le> hi - lo"
    using assms by (simp_all add: spec_clamp_def)
  then have "(0::rat) \<le> of_int (spec_clamp v lo hi - lo) / of_int (hi - lo)"
    and "(of_int (spec_clamp v lo hi - lo) :: rat) / of_int (hi - lo) \<le> 1"
    using assms by (simp_all add: divide_le_eq_1 del: of_int_diff)
  then show ?thesis
    using assms by (simp add: spec_normalize_exact)
qed

lemma accepted_touch:
  assumes "accepted data c c'"
  shows "touch_status (status c') =
           (fst (touch_xy (is_active (touch_1 data) \<noteq> 0) (touch_calibration (status c)) (touch_1 data)),
            snd (touch_xy (is_active (touch_1 data) \<noteq> 0) (touch_calibration (status c)) (touch_1 data)),
            is_active (touch_1 data) \<noteq> 0)"
  using assms by (auto simp add: accepted_def OnPadData_fresh)

lemma touch_xy_Some:
  "touch_xy True (Some cal) t =
     (spec_normalize (uint (TouchPad.x t)) (uint (min_x cal)) (uint (max_x cal)),
      spec_normalize (uint (TouchPad.y t)) (uint (min_y cal)) (uint (max_y cal)))"
  by (simp add: touch_xy_def Let_def scale_axis_spec)

lemma touch_xy_zero:
  "\<not> active \<or> cal = None \<Longrightarrow> touch_xy active cal t = (Finite 0, Finite 0)"
  by (auto simp add: touch_xy_def f32_of_int_def)

subsection \<open>Staleness filter\<close>

text \<open>
  C1. For every incoming PadData packet, the shared status and the stored
  \<open>packet_sequence\<close> are updated if and only if the packet's counter is strictly greater
  than the current \<open>packet_sequence\<close>. A packet whose counter is not greater is discarded:
  status and \<open>packet_sequence\<close> are what they were (only the two diagnostics are added).
  Every packet whose counter is greater is accepted, whatever the calibration: it sets
  \<open>packet_sequence\<close> to its counter, which differs from the old value, and writes motion
  and touch from this packet.
\<close>

theorem OnPadData_updates_iff_newer:
  "(packet_counter data \<le> packet_sequence c \<longrightarrow>
      status (OnPadData data c) = status c
      \<and> packet_sequence (OnPadData data c) = packet_sequence c)
   \<and> (\<forall>c'. accepted data c c' \<longrightarrow>
         packet_sequence c' = packet_counter data \<and> packet_sequence c' \<noteq> packet_sequence c
         \<and> motion_status (status c') =
             (remap_accel (Response_PadData.accel data), remap_gyro (Response_PadData.gyro data))
         \<and> snd (snd (touch_status (status c'))) = (is_active (touch_1 data) \<noteq> 0))
   \<and> (packet_sequence c < packet_counter data \<longrightarrow> accepted data c (OnPadData data c))
   \<and> ((packet_sequence (OnPadData data c) \<noteq> packet_sequence c)
        = (packet_sequence c < packet_counter data))"
proof (intro conjI allI impI)
  assume "packet_counter data \<le> packet_sequence c"
  then show "status (OnPadData data c) = status c"
    and "packet_sequence (OnPadData data c) = packet_sequence c"
    by (simp_all add: OnPadData_stale LOG_def)
next
  fix c' assume a: "accepted data c c'"
  then have lt: "packet_sequence c < packet_counter data" by (simp add: accepted_def)
  from a show "packet_sequence c' = packet_counter data"
    by (auto simp add: accepted_def OnPadData_fresh)
  with lt show "packet_sequence c' \<noteq> packet_sequence c" by auto
  from a show "motion_status (status c') =
      (remap_accel (Response_PadData.accel data), remap_gyro (Response_PadData.gyro data))"
    by (auto simp add: accepted_def OnPadData_fresh)
  from accepted_touch [OF a]
  show "snd (snd (touch_status (status c'))) = (is_active (touch_1 data) \<noteq> 0)" by simp
next
  assume "packet_sequence c < packet_counter data"
  then show "accepted data c (OnPadData data c)" by (simp add: accepted_def)
next
  show "(packet_sequence (OnPadData data c) \<noteq> packet_sequence c)
        = (packet_sequence c < packet_counter data)"
  proof (cases "packet_sequence c < packet_counter data")
    case True
    then show ?thesis by (auto simp add: OnPadData_fresh)
  next
    case False
    then have "packet_counter data \<le> packet_sequence c" by simp
    with False show ?thesis by (simp add: OnPadData_stale LOG_def)
  qed
qed

theorem OnPadData_updates_iff_newer_witness:
  "OnPadData (packet 3 1 250 0) (client_at 3 (Some calibration_100_200_50_150))
     = (client_at 3 (Some calibration_100_200_50_150))
         \<lparr>log_output :=
            [LogEntry Trace ''PadData packet received'' [],
             LogEntry Warning
               ''PadData packet dropped because its stale info. Current count: {} Packet count: {}''
               [3, 3]]\<rparr>
   \<and> accepted (packet 4 1 250 0) (client_at 3 (Some calibration_100_200_50_150))
        (OnPadData (packet 4 1 250 0) (client_at 3 (Some calibration_100_200_50_150)))
   \<and> packet_sequence (OnPadData (packet 4 1 250 0) (client_at 3 (Some calibration_100_200_50_150))) = 4
   \<and> motion_status (status (OnPadData (packet 4 1 250 0)
        (client_at 3 (Some calibration_100_200_50_150)))) =
       (MakeVec (Finite (- 1)) (Finite 2) (Finite (- 3)),
        MakeVec (Finite (- 4)) (Finite (- 5)) (Finite 6))
   \<and> accepted (packet 4 1 250 0)
        (client_at 3 (Some \<lparr>min_x = 200, min_y = 150, max_x = 100, max_y = 50\<rparr>))
        (OnPadData (packet 4 1 250 0)
           (client_at 3 (Some \<lparr>min_x = 200, min_y = 150, max_x = 100, max_y = 50\<rparr>)))
   \<and> packet_sequence (OnPadData (packet 4 1 250 0)
        (client_at 3 (Some \<lparr>min_x = 200, min_y = 150, max_x = 100, max_y = 50\<rparr>))) = 4"
proof -
  let ?c = "client_at 3 (Some calibration_100_200_50_150)"
  let ?d = "client_at 3 (Some \<lparr>min_x = 200, min_y = 150, max_x = 100, max_y = 50\<rparr>)"
  have stale: "packet_counter (packet 3 1 250 0) \<le> packet_sequence ?c" by simp
  have fresh: "packet_sequence ?c < packet_counter (packet 4 1 250 0)" by simp
  have fresh': "packet_sequence ?d < packet_counter (packet 4 1 250 0)" by simp
  have first: "OnPadData (packet 3 1 250 0) ?c
     = ?c\<lparr>log_output :=
            [LogEntry Trace ''PadData packet received'' [],
             LogEntry Warning
               ''PadData packet dropped because its stale info. Current count: {} Packet count: {}''
               [3, 3]]\<rparr>"
    by (simp add: OnPadData_stale [OF stale] LOG_def)
  from OnPadData_updates_iff_newer [of "packet 4 1 250 0" ?c] fresh
  have a: "accepted (packet 4 1 250 0) ?c (OnPadData (packet 4 1 250 0) ?c)" by blast
  with OnPadData_updates_iff_newer [of "packet 4 1 250 0" ?c]
  have b: "packet_sequence (OnPadData (packet 4 1 250 0) ?c) = 4
          \<and> motion_status (status (OnPadData (packet 4 1 250 0) ?c)) =
              (MakeVec (Finite (- 1)) (Finite 2) (Finite (- 3)),
               MakeVec (Finite (- 4)) (Finite (- 5)) (Finite 6))"
    by (simp add: remap_accel_def remap_gyro_def)
  from OnPadData_updates_iff_newer [of "packet 4 1 250 0" ?d] fresh'
  have a': "accepted (packet 4 1 250 0) ?d (OnPadData (packet 4 1 250 0) ?d)" by blast
  with OnPadData_updates_iff_newer [of "packet 4 1 250 0" ?d]
  have b': "packet_sequence (OnPadData (packet 4 1 250 0) ?d) = 4" by simp
  from first a b a' b' show ?thesis by blast
qed

subsection \<open>Axis remap\<close>

text \<open>
  C2. For every accepted PadData packet the motion written to the shared status is the
  fixed remap of the packet's values: the stored accelerometer vector is
  \<open>(-x, y, -z)\<close> and the stored gyroscope vector is \<open>(-pitch, -yaw, roll)\<close>. The
  example that follows is the one of the specification: \<open>accel = (1, 2, 3)\<close>,
  \<open>gyro = (4, 5, 6)\<close> are stored as \<open>(-1, 2, -3)\<close> and \<open>(-4, -5, 6)\<close>.
\<close>

theorem OnPadData_axis_remap:
  assumes "accepted data c c'"
  shows "motion_status (status c') =
           (MakeVec (fneg (Accelerometer.x (Response_PadData.accel data)))
                    (Accelerometer.y (Response_PadData.accel data))
                    (fneg (Accelerometer.z (Response_PadData.accel data))),
            MakeVec (fneg (pitch (Response_PadData.gyro data)))
                    (fneg (yaw (Response_PadData.gyro data)))
                    (roll (Response_PadData.gyro data)))"
  using assms
  by (auto simp add: accepted_def OnPadData_fresh remap_accel_def remap_gyro_def)

theorem OnPadData_axis_remap_witness:
  "\<exists>c'. accepted (packet 1 0 0 0) (client_at 0 None) c'
       \<and> motion_status (status c') =
           (MakeVec (Finite (- 1)) (Finite 2) (Finite (- 3)),
            MakeVec (Finite (- 4)) (Finite (- 5)) (Finite 6))"
proof -
  have "\<exists>c'. accepted (packet 1 0 0 0) (client_at 0 None) c'"
    by (rule accepted_exists) simp
  then obtain c' where a: "accepted (packet 1 0 0 0) (client_at 0 None) c'" ..
  from OnPadData_axis_remap [OF a]
  have "motion_status (status c') =
           (MakeVec (Finite (- 1)) (Finite 2) (Finite (- 3)),
            MakeVec (Finite (- 4)) (Finite (- 5)) (Finite 6))"
    by simp
  with a show ?thesis by blast
qed

text \<open>
  C10. The axis remap is an involution: applied to its own result, read as a sample
  again, it gives back the sample it started from; and it leaves \<open>accel.y\<close> and
  \<open>gyro.roll\<close> as they are.
\<close>

theorem remap_involution:
  "remap_accel (as_accel (remap_accel a))
     = MakeVec (Accelerometer.x a) (Accelerometer.y a) (Accelerometer.z a)
   \<and> remap_gyro (as_gyro (remap_gyro g)) = MakeVec (pitch g) (yaw g) (roll g)
   \<and> vec_y (remap_accel a) = Accelerometer.y a
   \<and> vec_z (remap_gyro g) = roll g"
proof -
  have "fneg (fneg v) = v" for v by (cases v) simp_all
  then show ?thesis
    by (simp add: remap_accel_def remap_gyro_def as_accel_def as_gyro_def)
qed

subsection \<open>Touch\<close>

lemma accepted_touch_cases:
  assumes "accepted data c c'"
  shows "snd (snd (touch_status (status c'))) = (is_active (touch_1 data) \<noteq> 0)
     \<and> (\<forall>cal. is_active (touch_1 data) \<noteq> 0 \<and> touch_calibration (status c) = Some cal \<longrightarrow>
           fst (touch_status (status c')) =
             spec_normalize (uint (TouchPad.x (touch_1 data))) (uint (min_x cal)) (uint (max_x cal))
         \<and> fst (snd (touch_status (status c'))) =
             spec_normalize (uint (TouchPad.y (touch_1 data))) (uint (min_y cal)) (uint (max_y cal)))
     \<and> (is_active (touch_1 data) = 0 \<or> touch_calibration (status c) = None \<longrightarrow>
           fst (touch_status (status c')) = Finite 0
         \<and> fst (snd (touch_status (status c'))) = Finite 0)"
proof -
  note ts = accepted_touch [OF assms]
  have "snd (snd (touch_status (status c'))) = (is_active (touch_1 data) \<noteq> 0)"
    using ts by simp
  moreover have "fst (touch_status (status c')) =
             spec_normalize (uint (TouchPad.x (touch_1 data))) (uint (min_x cal)) (uint (max_x cal))
         \<and> fst (snd (touch_status (status c'))) =
             spec_normalize (uint (TouchPad.y (touch_1 data))) (uint (min_y cal)) (uint (max_y cal))"
    if "is_active (touch_1 data) \<noteq> 0 \<and> touch_calibration (status c) = Some cal" for cal
    using that ts by (simp add: touch_xy_Some)
  moreover have "fst (touch_status (status c')) = Finite 0
         \<and> fst (snd (touch_status (status c'))) = Finite 0"
    if "is_active (touch_1 data) = 0 \<or> touch_calibration (status c) = None"
    using that ts
      touch_xy_zero [of "is_active (touch_1 data) \<noteq> 0" "touch_calibration (status c)" "touch_1 data"]
    by auto
  ultimately show ?thesis by blast
qed

text \<open>
  C3. For every accepted PadData packet: the stored flag is true iff the packet's
  \<open>touch_1.is_active\<close> is nonzero; when the touch is active and a calibration is present,
  the stored coordinates are the specification's formula
  \<open>(clamp x - min_x) / (max_x - min_x)\<close> and its analogue for \<open>y\<close>; when the touch is
  inactive, whatever the raw coordinates, or no calibration is present, the stored
  coordinates are \<open>(0, 0)\<close>. The examples that follow are the three of the
  specification.
\<close>

theorem OnPadData_touch:
  assumes "accepted data c c'"
  shows "snd (snd (touch_status (status c'))) = (is_active (touch_1 data) \<noteq> 0)
     \<and> (\<forall>cal. is_active (touch_1 data) \<noteq> 0 \<and> touch_calibration (status c) = Some cal \<longrightarrow>
           fst (touch_status (status c')) =
             spec_normalize (uint (TouchPad.x (touch_1 data))) (uint (min_x cal)) (uint (max_x cal))
         \<and> fst (snd (touch_status (status c'))) =
             spec_normalize (uint (TouchPad.y (touch_1 data))) (uint (min_y cal)) (uint (max_y cal)))
     \<and> (is_active (touch_1 data) = 0 \<or> touch_calibration (status c) = None \<longrightarrow>
           fst (touch_status (status c')) = Finite 0
         \<and> fst (snd (touch_status (status c'))) = Finite 0)"
  using assms by (rule accepted_touch_cases)

theorem OnPadData_touch_witness:
  "(\<exists>c'. accepted (packet 1 1 250 0) (client_at 0 (Some calibration_100_200_50_150)) c'
        \<and> touch_status (status c') = (Finite 1, Finite 0, True))
   \<and> (\<exists>c'. accepted (packet 1 0 250 0) (client_at 0 (Some calibration_100_200_50_150)) c'
        \<and> touch_status (status c') = (Finite 0, Finite 0, False))
   \<and> (\<exists>c'. accepted (packet 1 1 250 0) (client_at 0 None) c'
        \<and> touch_status (status c') = (Finite 0, Finite 0, True))"
proof (intro conjI)
  let ?c = "client_at 0 (Some calibration_100_200_50_150)"
  have "\<exists>c'. accepted (packet 1 1 250 0) ?c c'"
    by (rule accepted_exists) simp
  then obtain c' where a: "accepted (packet 1 1 250 0) ?c c'" ..
  from OnPadData_touch [OF a]
  have "fst (touch_status (status c')) = Finite 1"
    and "fst (snd (touch_status (status c'))) = Finite 0"
    and "snd (snd (touch_status (status c')))"
    by (simp_all add: spec_normalize_def spec_clamp_def f32_of_int_def)
  then have "touch_status (status c') = (Finite 1, Finite 0, True)"
    by (cases "touch_status (status c')") auto
  with a show "\<exists>c'. accepted (packet 1 1 250 0) ?c c'
        \<and> touch_status (status c') = (Finite 1, Finite 0, True)" by blast
next
  let ?c = "client_at 0 (Some calibration_100_200_50_150)"
  have "\<exists>c'. accepted (packet 1 0 250 0) ?c c'"
    by (rule accepted_exists) simp
  then obtain c' where a: "accepted (packet 1 0 250 0) ?c c'" ..
  from OnPadData_touch [OF a]
  have "fst (touch_status (status c')) = Finite 0"
    and "fst (snd (touch_status (status c'))) = Finite 0"
    and "\<not> snd (snd (touch_status (status c')))"
    by simp_all
  then have "touch_status (status c') = (Finite 0, Finite 0, False)"
    by (cases "touch_status (status c')") auto
  with a show "\<exists>c'. accepted (packet 1 0 250 0) ?c c'
        \<and> touch_status (status c') = (Finite 0, Finite 0, False)" by blast
next
  let ?c = "client_at 0 None"
  have "\<exists>c'. accepted (packet 1 1 250 0) ?c c'"
    by (rule accepted_exists) simp
  then obtain c' where a: "accepted (packet 1 1 250 0) ?c c'" ..
  from OnPadData_touch [OF a]
  have "fst (touch_status (status c')) = Finite 0"
    and "fst (snd (touch_status (status c'))) = Finite 0"
    and "snd (snd (touch_status (status c')))"
    by simp_all
  then have "touch_status (status c') = (Finite 0, Finite 0, True)"
    by (cases "touch_status (status c')") auto
  with a show "\<exists>c'. accepted (packet 1 1 250 0) ?c c'
        \<and> touch_status (status c') = (Finite 0, Finite 0, True)" by blast
qed

lemma f32_of_int_nonzero: "i \<noteq> 0 \<Longrightarrow> f32_of_int i \<noteq> Finite 0"
  by (simp add: f32_of_int_def)

text \<open>
  C8, as stated: for every accepted packet and every supplied calibration the stored
  touch coordinates lie in \<open>[0, 1]\<close>, and the divisors are never zero. A calibration
  with \<open>min_x = max_x = 100\<close> is a calibration like any other: the clamped coordinate
  is 100, the dividend is the integer 0, the divisor is the float 0, and the stored
  \<open>x\<close> is a NaN.
\<close>

theorem OnPadData_touch_unit_counterexample:
  "touch_status (status
     (OnPadData (packet 1 1 250 0)
        (client_at 0 (Some \<lparr>min_x = 100, min_y = 50, max_x = 100, max_y = 150\<rparr>))))
     = (NaN, Finite 0, True)
   \<and> \<not> in_unit_interval NaN
   \<and> f32_of_int (uint (100 :: u16) - uint (100 :: u16)) = Finite 0"
  by (simp add: OnPadData_def LOG_def Let_def touch_xy_def scale_axis_def clamp_def
      f32_of_int_def remap_accel_def remap_gyro_def)

text \<open>
  C8, amended: for every accepted packet and every calibration whose lower bounds are
  strictly below its upper bounds, and when no calibration is present, the stored touch
  coordinates lie in \<open>[0, 1]\<close>, and neither divisor is zero.
\<close>

theorem OnPadData_touch_unit:
  assumes "accepted data c c'" and "strictly_ordered (touch_calibration (status c))"
  shows "in_unit_interval (fst (touch_status (status c')))
     \<and> in_unit_interval (fst (snd (touch_status (status c'))))
     \<and> (\<forall>cal. touch_calibration (status c) = Some cal \<longrightarrow>
           f32_of_int (uint (max_x cal) - uint (min_x cal)) \<noteq> Finite 0
         \<and> f32_of_int (uint (max_y cal) - uint (min_y cal)) \<noteq> Finite 0)"
proof -
  have divisors: "f32_of_int (uint (max_x cal) - uint (min_x cal)) \<noteq> Finite 0
         \<and> f32_of_int (uint (max_y cal) - uint (min_y cal)) \<noteq> Finite 0"
    if "touch_calibration (status c) = Some cal" for cal
  proof -
    from that assms(2) have "uint (min_x cal) < uint (max_x cal)" "uint (min_y cal) < uint (max_y cal)"
      by (simp_all add: word_less_def)
    then have "uint (max_x cal) - uint (min_x cal) \<noteq> 0" "uint (max_y cal) - uint (min_y cal) \<noteq> 0"
      by simp_all
    then show ?thesis
      by (simp only: f32_of_int_nonzero simp_thms)
  qed
  have "in_unit_interval (fst (touch_status (status c')))
     \<and> in_unit_interval (fst (snd (touch_status (status c'))))"
  proof (cases "is_active (touch_1 data) \<noteq> 0 \<and> touch_calibration (status c) \<noteq> None")
    case True
    then obtain cal where cal: "touch_calibration (status c) = Some cal" by auto
    with assms(2) have lt: "uint (min_x cal) < uint (max_x cal)" "uint (min_y cal) < uint (max_y cal)"
      by (simp_all add: word_less_def)
    from accepted_touch_cases [OF assms(1)] True cal
    have "fst (touch_status (status c')) =
               spec_normalize (uint (TouchPad.x (touch_1 data))) (uint (min_x cal)) (uint (max_x cal))"
      and "fst (snd (touch_status (status c'))) =
               spec_normalize (uint (TouchPad.y (touch_1 data))) (uint (min_y cal)) (uint (max_y cal))"
      by simp_all
    with lt show ?thesis
      by (simp only: spec_normalize_unit simp_thms)
  next
    case False
    with accepted_touch_cases [OF assms(1)]
    have "fst (touch_status (status c')) = Finite 0"
      and "fst (snd (touch_status (status c'))) = Finite 0"
      by auto
    then show ?thesis by simp
  qed
  with divisors show ?thesis by blast
qed

theorem OnPadData_touch_unit_witness:
  "\<exists>c'. accepted (packet 1 1 125 100) (client_at 0 (Some calibration_100_200_50_150)) c'
       \<and> strictly_ordered (touch_calibration (status (client_at 0 (Some calibration_100_200_50_150))))
       \<and> touch_status (status c') = (Finite (1 / 4), Finite (1 / 2), True)
       \<and> in_unit_interval (fst (touch_status (status c')))
       \<and> in_unit_interval (fst (snd (touch_status (status c'))))"
proof -
  let ?c = "client_at 0 (Some calibration_100_200_50_150)"
  have so: "strictly_ordered (touch_calibration (status ?c))" by simp
  have "\<exists>c'. accepted (packet 1 1 125 100) ?c c'"
    by (rule accepted_exists) simp
  then obtain c' where a: "accepted (packet 1 1 125 100) ?c c'" ..
  from OnPadData_touch_unit [OF a so]
  have u: "in_unit_interval (fst (touch_status (status c')))"
    "in_unit_interval (fst (snd (touch_status (status c'))))"
    by simp_all
  from accepted_touch_cases [OF a]
  have "fst (touch_status (status c')) = Finite (1 / 4)"
    and "fst (snd (touch_status (status c'))) = Finite (1 / 2)"
    and "snd (snd (touch_status (status c')))"
    by (simp_all add: spec_normalize_def spec_clamp_def f32_of_int_def)
  then have "touch_status (status c') = (Finite (1 / 4), Finite (1 / 2), True)"
    by (cases "touch_status (status c')") auto
  with a so u show ?thesis by blast
qed

subsection \<open>The diagnostic callbacks\<close>

text \<open>
  C9. The Version and PortInfo callbacks are diagnostic only: whatever the response, the
  handler leaves the shared status (motion, touch, calibration) and \<open>packet_sequence\<close>
  as they were. What it adds is one trace line.
\<close>

theorem OnVersion_OnPortInfo_frame:
  "status (OnVersion v c) = status c
   \<and> packet_sequence (OnVersion v c) = packet_sequence c
   \<and> status (OnPortInfo info c) = status c
   \<and> packet_sequence (OnPortInfo info c) = packet_sequence c"
  by (simp add: OnVersion_def OnPortInfo_def LOG_def)

subsection \<open>Facts about the socket\<close>

lemma dispatch_invalid:
  "Validate cd buffer n = None \<or> Validate cd buffer n = Some Unrecognized \<Longrightarrow>
   dispatch cd callback buffer n c = c"
  by (auto simp add: dispatch_def)

lemma HandleReceive_eq:
  "HandleReceive cd callback ec n (s, c) =
     (StartReceive s, dispatch cd callback (receive_buffer s) n c)"
  by (simp add: HandleReceive_def)

lemma HandleSend_Sent:
  "HandleSend cd ec (Sent n1) (Sent n2) s =
     Inr (s\<lparr>send_buffer1 := Create_PortInfo cd (Request_PortInfo 1 [0, 0, 0, 0]) (client_id s),
            send_buffer2 := Create_PadData cd (Request_PadData Flags_Id 0 EMPTY_MAC_ADDRESS) (client_id s),
            sent := sent s @
              [(Create_PortInfo cd (Request_PortInfo 1 [0, 0, 0, 0]) (client_id s), send_endpoint s),
               (Create_PadData cd (Request_PadData Flags_Id 0 EMPTY_MAC_ADDRESS) (client_id s), send_endpoint s)],
            timer_expiry := timer_expiry s + seconds 3,
            timer_waiting := True\<rparr>)"
  by (simp add: HandleSend_def send_to_def StartSend_def Let_def)

text \<open>A refused first send: nothing has been sent and the timer is as the handler found
  it. A refused second send: the first datagram has gone out, and the timer is as the
  handler found it.\<close>

lemma HandleSend_Refused1:
  "HandleSend cd ec (Refused e) o2 s =
     Inl (system_error e,
          s\<lparr>send_buffer1 := Create_PortInfo cd (Request_PortInfo 1 [0, 0, 0, 0]) (client_id s)\<rparr>)"
  by (simp add: HandleSend_def send_to_def Let_def)

lemma HandleSend_Refused2:
  "HandleSend cd ec (Sent n) (Refused e) s =
     Inl (system_error e,
          s\<lparr>send_buffer1 := Create_PortInfo cd (Request_PortInfo 1 [0, 0, 0, 0]) (client_id s),
            send_buffer2 := Create_PadData cd (Request_PadData Flags_Id 0 EMPTY_MAC_ADDRESS) (client_id s),
            sent := sent s @
              [(Create_PortInfo cd (Request_PortInfo 1 [0, 0, 0, 0]) (client_id s), send_endpoint s)]\<rparr>)"
  by (simp add: HandleSend_def send_to_def Let_def)

lemma HandleSend_cases:
  obtains (both) n1 n2 where "o1 = Sent n1" "o2 = Sent n2"
  | (first) e where "o1 = Refused e"
  | (second) n e where "o1 = Sent n" "o2 = Refused e"
  by (cases o1; cases o2) auto

lemma HandleSend_Inr:
  assumes "HandleSend cd ec o1 o2 s = Inr s'"
  shows "timer_expiry s' = timer_expiry s + seconds 3 \<and> timer_waiting s'
       \<and> length (sent s') = length (sent s) + 2
       \<and> client_id s' = client_id s \<and> send_endpoint s' = send_endpoint s
       \<and> receive_waiting s' = receive_waiting s"
proof (cases o1 o2 rule: HandleSend_cases)
  case both
  with assms show ?thesis by (auto simp add: HandleSend_Sent)
next
  case first
  with assms show ?thesis by (simp add: HandleSend_Refused1)
next
  case second
  with assms show ?thesis by (simp add: HandleSend_Refused2)
qed

lemma HandleSend_Inl:
  assumes "HandleSend cd ec o1 o2 s = Inl (e, s')"
  shows "timer_expiry s' = timer_expiry s \<and> timer_waiting s' = timer_waiting s
       \<and> receive_waiting s' = receive_waiting s"
proof (cases o1 o2 rule: HandleSend_cases)
  case both
  with assms show ?thesis by (simp add: HandleSend_Sent)
next
  case first
  with assms show ?thesis by (auto simp add: HandleSend_Refused1)
next
  case second
  with assms show ?thesis by (auto simp add: HandleSend_Refused2)
qed

text \<open>An expiry whose send is refused ends the loop with the exception, in the state in
  which it was thrown and with the owner's state as it was, whatever events follow.\<close>

lemma Loop_Refused:
  assumes "timer_waiting s"
  shows "Loop cd callback (TimerExpires ec (Refused e) o2 # evs) (s, c) =
           Inl (system_error e,
                (s\<lparr>timer_waiting := False,
                    send_buffer1 := Create_PortInfo cd (Request_PortInfo 1 [0, 0, 0, 0]) (client_id s)\<rparr>,
                 c))"
    and "Loop cd callback (TimerExpires ec (Sent n) (Refused e) # evs) (s, c) =
           Inl (system_error e,
                (s\<lparr>timer_waiting := False,
                    send_buffer1 := Create_PortInfo cd (Request_PortInfo 1 [0, 0, 0, 0]) (client_id s),
                    send_buffer2 :=
                      Create_PadData cd (Request_PadData Flags_Id 0 EMPTY_MAC_ADDRESS) (client_id s),
                    sent := sent s @
                      [(Create_PortInfo cd (Request_PortInfo 1 [0, 0, 0, 0]) (client_id s),
                        send_endpoint s)]\<rparr>,
                 c))"
  using assms by (simp_all add: HandleSend_Refused1 HandleSend_Refused2 expire_def)

lemma Loop_step_cases:
  assumes "Loop cd callback (ev # evs) sc = Inr sc'"
  obtains (stop) "ev = StopRequested" "sc' = sc"
  | (skip) "Loop cd callback evs sc = Inr sc'"
      "(\<exists>ec o1 o2. ev = TimerExpires ec o1 o2 \<and> \<not> timer_waiting (fst sc))
       \<or> (\<exists>ec data. ev = DatagramArrives ec data \<and> \<not> receive_waiting (fst sc))"
  | (timer) ec o1 o2 s' where "ev = TimerExpires ec o1 o2" "timer_waiting (fst sc)"
      "HandleSend cd ec o1 o2 (expire (fst sc)) = Inr s'"
      "Loop cd callback evs (s', snd sc) = Inr sc'"
  | (datagram) ec data where "ev = DatagramArrives ec data" "receive_waiting (fst sc)"
      "Loop cd callback evs
         (HandleReceive cd callback ec (min (length data) (MAX_PACKET_SIZE cd))
            (deliver (min (length data) (MAX_PACKET_SIZE cd)) data (fst sc), snd sc)) = Inr sc'"
proof (cases ev)
  case StopRequested
  with assms stop show ?thesis by simp
next
  case (TimerExpires ec o1 o2)
  show ?thesis
  proof (cases "timer_waiting (fst sc)")
    case False
    with TimerExpires assms skip show ?thesis by simp
  next
    case True
    with TimerExpires assms timer show ?thesis
      by (auto split: sum.splits)
  qed
next
  case (DatagramArrives ec data)
  show ?thesis
  proof (cases "receive_waiting (fst sc)")
    case False
    with DatagramArrives assms skip show ?thesis by simp
  next
    case True
    with DatagramArrives assms datagram show ?thesis
      by (simp add: Let_def)
  qed
qed

lemma Loop_expiry:
  "timer_waiting (fst sc) \<Longrightarrow> StopRequested \<notin> set evs \<Longrightarrow> Loop cd callback evs sc = Inr sc' \<Longrightarrow>
   timer_expiry (fst sc') = timer_expiry (fst sc) + seconds (3 * int (expiries evs))
   \<and> length (sent (fst sc')) = length (sent (fst sc)) + 2 * expiries evs
   \<and> timer_waiting (fst sc')"
proof (induction evs arbitrary: sc)
  case Nil
  then show ?case by (simp add: seconds_def)
next
  case (Cons ev evs)
  from Cons.prems(3) show ?case
  proof (cases rule: Loop_step_cases)
    case stop
    with Cons.prems show ?thesis by simp
  next
    case skip
    with Cons.prems Cons.IH [of sc] show ?thesis by auto
  next
    case (timer ec o1 o2 s')
    from HandleSend_Inr [OF timer(3)]
    have step: "timer_expiry s' = timer_expiry (fst sc) + seconds 3" "timer_waiting s'"
      "length (sent s') = length (sent (fst sc)) + 2"
      by (simp_all add: expire_def)
    from Cons.IH [of "(s', snd sc)"] step(2) Cons.prems(2) timer(4)
    have "timer_expiry (fst sc') = timer_expiry s' + seconds (3 * int (expiries evs))"
      and "length (sent (fst sc')) = length (sent s') + 2 * expiries evs"
      and "timer_waiting (fst sc')"
      by simp_all
    with step timer(1) show ?thesis by (simp add: seconds_def)
  next
    case (datagram ec data)
    let ?n = "min (length data) (MAX_PACKET_SIZE cd)"
    let ?sc = "HandleReceive cd callback ec ?n (deliver ?n data (fst sc), snd sc)"
    have same: "timer_expiry (fst ?sc) = timer_expiry (fst sc)"
      "timer_waiting (fst ?sc) = timer_waiting (fst sc)"
      "sent (fst ?sc) = sent (fst sc)"
      by (simp_all add: HandleReceive_eq StartReceive_def deliver_def)
    from Cons.IH [of ?sc] same Cons.prems(1,2) datagram
    show ?thesis by simp
  qed
qed

lemma Loop_identity:
  "Loop cd callback evs sc = Inr sc' \<Longrightarrow>
   client_id (fst sc') = client_id (fst sc) \<and> send_endpoint (fst sc') = send_endpoint (fst sc)"
proof (induction evs arbitrary: sc)
  case Nil
  then show ?case by simp
next
  case (Cons ev evs)
  from Cons.prems show ?case
  proof (cases rule: Loop_step_cases)
    case stop
    then show ?thesis by simp
  next
    case skip
    with Cons.IH [of sc] show ?thesis by simp
  next
    case (timer ec o1 o2 s')
    from HandleSend_Inr [OF timer(3)]
    have "client_id s' = client_id (fst sc)" "send_endpoint s' = send_endpoint (fst sc)"
      by (simp_all add: expire_def)
    with Cons.IH [OF timer(4)] show ?thesis by simp
  next
    case (datagram ec data)
    let ?n = "min (length data) (MAX_PACKET_SIZE cd)"
    let ?sc = "HandleReceive cd callback ec ?n (deliver ?n data (fst sc), snd sc)"
    have "client_id (fst ?sc) = client_id (fst sc)" "send_endpoint (fst ?sc) = send_endpoint (fst sc)"
      by (simp_all add: HandleReceive_eq StartReceive_def deliver_def)
    with Cons.IH [OF datagram(3)] show ?thesis by simp
  qed
qed

text \<open>Once a receive is outstanding, one is outstanding in whatever state a run is left,
  by return or by exception.\<close>

lemma Loop_receive_waiting:
  "receive_waiting (fst sc) \<Longrightarrow>
   (\<forall>sc'. Loop cd callback evs sc = Inr sc' \<longrightarrow> receive_waiting (fst sc'))
   \<and> (\<forall>e sc'. Loop cd callback evs sc = Inl (e, sc') \<longrightarrow> receive_waiting (fst sc'))"
proof (induction evs arbitrary: sc)
  case Nil
  then show ?case by simp
next
  case (Cons ev evs)
  show ?case
  proof (cases ev)
    case StopRequested
    with Cons.prems show ?thesis by simp
  next
    case (TimerExpires ec o1 o2)
    show ?thesis
    proof (cases "timer_waiting (fst sc)")
      case False
      with TimerExpires Cons.IH [OF Cons.prems] show ?thesis by simp
    next
      case True
      show ?thesis
      proof (cases "HandleSend cd ec o1 o2 (expire (fst sc))")
        case (Inl thrown)
        obtain e s' where thrown: "thrown = (e, s')" by (cases thrown)
        from HandleSend_Inl [of cd ec o1 o2 "expire (fst sc)" e s'] Inl thrown Cons.prems
        have "receive_waiting s'" by (simp add: expire_def)
        with TimerExpires True Inl thrown show ?thesis by simp
      next
        case (Inr s')
        from HandleSend_Inr [OF Inr] Cons.prems
        have "receive_waiting (fst (s', snd sc))" by (simp add: expire_def)
        from Cons.IH [OF this] TimerExpires True Inr show ?thesis by simp
      qed
    qed
  next
    case (DatagramArrives ec data)
    show ?thesis
    proof (cases "receive_waiting (fst sc)")
      case False
      with Cons.prems show ?thesis by simp
    next
      case True
      let ?n = "min (length data) (MAX_PACKET_SIZE cd)"
      let ?sc = "HandleReceive cd callback ec ?n (deliver ?n data (fst sc), snd sc)"
      have "receive_waiting (fst ?sc)" by (simp add: HandleReceive_eq StartReceive_def)
      from Cons.IH [OF this] DatagramArrives True show ?thesis by (simp add: Let_def)
    qed
  qed
qed

subsection \<open>Receiving\<close>

text \<open>
  C5. For every received datagram that fails validation or carries a type tag the
  switch does not know, no callback runs and the state of the callbacks' owner, the
  shared status included, is what it was: the result is the same for every triple of
  callbacks. The handler arms the next receive whatever the validator said and whatever
  the datagram held: after \<^verbatim>\<open>HandleReceive\<close> a receive is outstanding, always. Inside
  the loop, a datagram that is not valid leaves everything but the receive buffer as it
  was, and the loop goes on with the next event; and once a receive is outstanding, one
  is outstanding in every state in which a run can be left, so the receive path never
  stops itself.
\<close>

theorem HandleReceive_rearms:
  "(Validate cd (receive_buffer s) n = None \<or> Validate cd (receive_buffer s) n = Some Unrecognized \<longrightarrow>
      HandleReceive cd callback ec n (s, c) = (StartReceive s, c))
   \<and> fst (HandleReceive cd callback ec n (s, c)) = StartReceive s
   \<and> receive_waiting (fst (HandleReceive cd callback ec n (s, c)))
   \<and> (receive_waiting s \<longrightarrow> m = min (length data) (MAX_PACKET_SIZE cd) \<longrightarrow>
        (Validate cd (receive_buffer (deliver m data s)) m = None
         \<or> Validate cd (receive_buffer (deliver m data s)) m = Some Unrecognized) \<longrightarrow>
         Loop cd callback (DatagramArrives ec data # evs) (s, c)
           = Loop cd callback evs (StartReceive (deliver m data s), c))
   \<and> (receive_waiting s \<longrightarrow> m = min (length data) (MAX_PACKET_SIZE cd) \<longrightarrow>
         Loop cd callback (DatagramArrives ec data # evs) (s, c)
           = Loop cd callback evs (HandleReceive cd callback ec m (deliver m data s, c)))
   \<and> (receive_waiting s \<longrightarrow>
        (\<forall>sc'. Loop cd callback evs (s, c) = Inr sc' \<longrightarrow> receive_waiting (fst sc'))
        \<and> (\<forall>e sc'. Loop cd callback evs (s, c) = Inl (e, sc') \<longrightarrow> receive_waiting (fst sc')))"
proof (intro conjI impI)
  assume "Validate cd (receive_buffer s) n = None \<or> Validate cd (receive_buffer s) n = Some Unrecognized"
  then show "HandleReceive cd callback ec n (s, c) = (StartReceive s, c)"
    by (simp add: HandleReceive_eq dispatch_invalid)
next
  show "fst (HandleReceive cd callback ec n (s, c)) = StartReceive s"
    by (simp add: HandleReceive_eq)
  show "receive_waiting (fst (HandleReceive cd callback ec n (s, c)))"
    by (simp add: HandleReceive_eq StartReceive_def)
next
  assume "receive_waiting s" and "m = min (length data) (MAX_PACKET_SIZE cd)"
    and "Validate cd (receive_buffer (deliver m data s)) m = None
         \<or> Validate cd (receive_buffer (deliver m data s)) m = Some Unrecognized"
  then show "Loop cd callback (DatagramArrives ec data # evs) (s, c)
           = Loop cd callback evs (StartReceive (deliver m data s), c)"
    by (simp add: HandleReceive_eq dispatch_invalid Let_def)
next
  assume "receive_waiting s" and "m = min (length data) (MAX_PACKET_SIZE cd)"
  then show "Loop cd callback (DatagramArrives ec data # evs) (s, c)
           = Loop cd callback evs (HandleReceive cd callback ec m (deliver m data s, c))"
    by (simp add: Let_def)
next
  assume "receive_waiting s"
  then have "receive_waiting (fst (s, c))" by simp
  from Loop_receive_waiting [OF this]
  show "\<forall>sc'. Loop cd callback evs (s, c) = Inr sc' \<longrightarrow> receive_waiting (fst sc')"
    and "\<forall>e sc'. Loop cd callback evs (s, c) = Inl (e, sc') \<longrightarrow> receive_waiting (fst sc')"
    by blast+
qed

theorem HandleReceive_rearms_witness:
  "HandleReceive example_codec Client_callback 0 2 (deliver 2 [9, 7] example_socket, client_at 0 None)
     = (StartReceive (deliver 2 [9, 7] example_socket), client_at 0 None)
   \<and> HandleReceive example_codec Client_callback 0 2 (deliver 2 [3, 7] example_socket, client_at 0 None)
     = (StartReceive (deliver 2 [3, 7] example_socket), client_at 0 None)
   \<and> HandleReceive example_codec Client_callback 0 1 (deliver 1 [2] example_socket, client_at 0 None)
     = (StartReceive (deliver 1 [2] example_socket), client_at 0 None)
   \<and> receive_waiting (fst (HandleReceive example_codec Client_callback 0 2
        (deliver 2 [2, 5] example_socket,
         client_at 0 (Some \<lparr>min_x = 200, min_y = 150, max_x = 100, max_y = 50\<rparr>))))
   \<and> map_sum id (packet_sequence \<circ> snd)
       (Loop example_codec Client_callback
          [DatagramArrives 0 [9, 7], DatagramArrives 0 [3, 7], DatagramArrives 0 [2],
           DatagramArrives 0 [2, 5]]
          (StartReceive example_socket, client_at 0 None))
     = Inr 5
   \<and> map_sum id (receive_waiting \<circ> fst)
       (Loop example_codec Client_callback
          [DatagramArrives 0 [9, 7], DatagramArrives 0 [3, 7], DatagramArrives 0 [2],
           DatagramArrives 0 [2, 5]]
          (StartReceive example_socket, client_at 0 None))
     = Inr True"
proof (intro conjI)
  have v1: "Validate example_codec (receive_buffer (deliver 2 [9, 7] example_socket)) 2 = None"
    by (simp add: deliver_def)
  with HandleReceive_rearms [of example_codec "deliver 2 [9, 7] example_socket" 2 Client_callback 0
      "client_at 0 None"]
  show "HandleReceive example_codec Client_callback 0 2 (deliver 2 [9, 7] example_socket, client_at 0 None)
     = (StartReceive (deliver 2 [9, 7] example_socket), client_at 0 None)"
    by blast
  have v2: "Validate example_codec (receive_buffer (deliver 2 [3, 7] example_socket)) 2 = Some Unrecognized"
    by (simp add: deliver_def)
  with HandleReceive_rearms [of example_codec "deliver 2 [3, 7] example_socket" 2 Client_callback 0
      "client_at 0 None"]
  show "HandleReceive example_codec Client_callback 0 2 (deliver 2 [3, 7] example_socket, client_at 0 None)
     = (StartReceive (deliver 2 [3, 7] example_socket), client_at 0 None)"
    by blast
  have v3: "Validate example_codec (receive_buffer (deliver 1 [2] example_socket)) 1 = None"
    by (simp add: deliver_def)
  with HandleReceive_rearms [of example_codec "deliver 1 [2] example_socket" 1 Client_callback 0
      "client_at 0 None"]
  show "HandleReceive example_codec Client_callback 0 1 (deliver 1 [2] example_socket, client_at 0 None)
     = (StartReceive (deliver 1 [2] example_socket), client_at 0 None)"
    by blast
  from HandleReceive_rearms [of example_codec "deliver 2 [2, 5] example_socket" 2 Client_callback 0
      "client_at 0 (Some \<lparr>min_x = 200, min_y = 150, max_x = 100, max_y = 50\<rparr>)"]
  show "receive_waiting (fst (HandleReceive example_codec Client_callback 0 2
        (deliver 2 [2, 5] example_socket,
         client_at 0 (Some \<lparr>min_x = 200, min_y = 150, max_x = 100, max_y = 50\<rparr>))))"
    by blast
  show "map_sum id (packet_sequence \<circ> snd)
       (Loop example_codec Client_callback
          [DatagramArrives 0 [9, 7], DatagramArrives 0 [3, 7], DatagramArrives 0 [2],
           DatagramArrives 0 [2, 5]]
          (StartReceive example_socket, client_at 0 None))
     = Inr 5"
    by (simp add: StartReceive_def deliver_def HandleReceive_def dispatch_def Client_callback_def
        OnPadData_def LOG_def Let_def touch_xy_def f32_of_int_def remap_accel_def remap_gyro_def)
  show "map_sum id (receive_waiting \<circ> fst)
       (Loop example_codec Client_callback
          [DatagramArrives 0 [9, 7], DatagramArrives 0 [3, 7], DatagramArrives 0 [2],
           DatagramArrives 0 [2, 5]]
          (StartReceive example_socket, client_at 0 None))
     = Inr True"
    by (simp add: StartReceive_def deliver_def HandleReceive_def dispatch_def Client_callback_def
        OnPadData_def LOG_def Let_def touch_xy_def f32_of_int_def remap_accel_def remap_gyro_def)
qed

subsection \<open>The heartbeat\<close>

text \<open>
  C6. The heartbeat does not drift. \<^verbatim>\<open>StartSend\<close> arms the timer for exactly three
  seconds after the time it is given. A \<^verbatim>\<open>HandleSend\<close> that returns has set the next
  expiry to the previous expiry plus three seconds; the handler has no access to the
  clock, so the time the sends took plays no part, and it returns whenever both sends do.
  A run of \<^verbatim>\<open>SocketLoop\<close> started at \<open>T0\<close> that has handled \<open>n\<close> expiries, with
  any datagrams in between, has sent \<open>2 n\<close> datagrams and waits for
  \<open>T0 + 3 (n + 1)\<close>: the heartbeats are due at \<open>T0 + 3\<close>, \<open>T0 + 6\<close>,
  \<open>T0 + 9\<close>, and so on.
\<close>

theorem heartbeat_drift_free:
  "timer_expiry (StartSend t s) = t + seconds 3 \<and> timer_waiting (StartSend t s)
   \<and> (\<forall>s'. HandleSend cd ec o1 o2 s = Inr s' \<longrightarrow>
         timer_expiry s' = timer_expiry s + seconds 3 \<and> timer_waiting s')
   \<and> (\<exists>s'. HandleSend cd ec (Sent n1) (Sent n2) s = Inr s')
   \<and> (\<forall>s' c'. StopRequested \<notin> set evs \<longrightarrow>
         SocketLoop cd callback T0 evs (s, c) = Inr (s', c') \<longrightarrow>
         timer_expiry s' = T0 + seconds (3 * (1 + int (expiries evs)))
         \<and> length (sent s') = length (sent s) + 2 * expiries evs
         \<and> timer_waiting s')"
proof (intro conjI allI impI)
  show "timer_expiry (StartSend t s) = t + seconds 3" "timer_waiting (StartSend t s)"
    by (simp_all add: StartSend_def)
next
  fix s' assume "HandleSend cd ec o1 o2 s = Inr s'"
  from HandleSend_Inr [OF this]
  show "timer_expiry s' = timer_expiry s + seconds 3" "timer_waiting s'" by simp_all
next
  show "\<exists>s'. HandleSend cd ec (Sent n1) (Sent n2) s = Inr s'"
    by (simp add: HandleSend_Sent)
next
  fix s' c'
  assume ns: "StopRequested \<notin> set evs"
    and run: "SocketLoop cd callback T0 evs (s, c) = Inr (s', c')"
  let ?start = "(StartSend T0 (StartReceive s), c)"
  have w: "timer_waiting (fst ?start)" by (simp add: StartSend_def)
  from run have "Loop cd callback evs ?start = Inr (s', c')" by (simp add: SocketLoop_def)
  from Loop_expiry [OF w ns this]
  have "timer_expiry s' = T0 + seconds 3 + seconds (3 * int (expiries evs))"
    and l: "length (sent s') = length (sent s) + 2 * expiries evs"
    and t: "timer_waiting s'"
    by (simp_all add: StartSend_def StartReceive_def)
  then show "timer_expiry s' = T0 + seconds (3 * (1 + int (expiries evs)))"
    by (simp add: seconds_def)
  from l show "length (sent s') = length (sent s) + 2 * expiries evs" .
  from t show "timer_waiting s'" .
qed

theorem heartbeat_drift_free_witness:
  "timer_expiry (StartSend 10 example_socket) = 13
   \<and> (\<exists>s' c'. SocketLoop example_codec Client_callback 10
          [TimerExpires 0 (Sent 2) (Sent 2)] (example_socket, client_at 0 None) = Inr (s', c')
        \<and> timer_expiry s' = 16)
   \<and> (\<exists>s' c'. SocketLoop example_codec Client_callback 10
          [TimerExpires 0 (Sent 2) (Sent 2), DatagramArrives 0 [2, 5], TimerExpires 0 (Sent 2) (Sent 2)]
          (example_socket, client_at 0 None) = Inr (s', c')
        \<and> timer_expiry s' = 19 \<and> length (sent s') = 4)"
proof (intro conjI)
  let ?c = "client_at 0 None"
  let ?e1 = "[TimerExpires 0 (Sent 2) (Sent 2)]"
  let ?e2 = "[TimerExpires 0 (Sent 2) (Sent 2), DatagramArrives 0 [2, 5], TimerExpires 0 (Sent 2) (Sent 2)]"
  from heartbeat_drift_free [where t = 10 and s = example_socket, THEN conjunct1]
  show "timer_expiry (StartSend 10 example_socket) = 13"
    by (simp add: seconds_def)
  have "\<exists>x. SocketLoop example_codec Client_callback 10 ?e1 (example_socket, ?c) = Inr x"
    by (simp add: SocketLoop_def StartSend_def StartReceive_def expire_def HandleSend_Sent)
  then obtain s' c' where
    r1: "SocketLoop example_codec Client_callback 10 ?e1 (example_socket, ?c) = Inr (s', c')"
    by auto
  have n1: "StopRequested \<notin> set ?e1" by simp
  from heartbeat_drift_free [where s = example_socket and evs = ?e1 and cd = example_codec
      and callback = Client_callback and ?T0.0 = 10 and c = ?c,
      THEN conjunct2, THEN conjunct2, THEN conjunct2, THEN conjunct2, rule_format, OF n1 r1]
  have "timer_expiry s' = 16" by (simp add: seconds_def)
  with r1 show "\<exists>s' c'. SocketLoop example_codec Client_callback 10 ?e1 (example_socket, ?c) = Inr (s', c')
        \<and> timer_expiry s' = 16"
    by blast
  have "\<exists>x. SocketLoop example_codec Client_callback 10 ?e2 (example_socket, ?c) = Inr x"
    by (simp add: SocketLoop_def StartSend_def StartReceive_def expire_def HandleSend_Sent
        deliver_def HandleReceive_def Let_def)
  then obtain t' d' where
    r2: "SocketLoop example_codec Client_callback 10 ?e2 (example_socket, ?c) = Inr (t', d')"
    by auto
  have n2: "StopRequested \<notin> set ?e2" by simp
  from heartbeat_drift_free [where s = example_socket and evs = ?e2 and cd = example_codec
      and callback = Client_callback and ?T0.0 = 10 and c = ?c,
      THEN conjunct2, THEN conjunct2, THEN conjunct2, THEN conjunct2, rule_format, OF n2 r2]
  have "timer_expiry t' = 19 \<and> length (sent t') = 4" by (simp add: seconds_def)
  with r2 show "\<exists>s' c'. SocketLoop example_codec Client_callback 10 ?e2 (example_socket, ?c) = Inr (s', c')
        \<and> timer_expiry s' = 19 \<and> length (sent s') = 4"
    by blast
qed

text \<open>
  C7. On a heartbeat expiry on which both calls of \<^verbatim>\<open>send_to\<close> return, exactly two
  datagrams are handed to the network, both for the peer endpoint: first the port-info
  request built from \<^verbatim>\<open>{1, {0, 0, 0, 0}}\<close>, then the pad-data request built from
  \<^verbatim>\<open>{Flags::Id, 0, EMPTY_MAC_ADDRESS}\<close>, that is by-id addressing with a MAC of six
  zero bytes. The source's comments call the pad they ask for "pad 1". Both requests are
  built with the socket's client identifier, which, like the peer endpoint, no run of the
  loop changes after construction.
\<close>

theorem HandleSend_requests:
  "(\<exists>s'. HandleSend cd ec (Sent n1) (Sent n2) s = Inr s'
       \<and> sent s' = sent s @
           [(Create_PortInfo cd (Request_PortInfo 1 [0, 0, 0, 0]) (client_id s), send_endpoint s),
            (Create_PadData cd (Request_PadData Flags_Id 0 [0, 0, 0, 0, 0, 0]) (client_id s),
             send_endpoint s)]
       \<and> client_id s' = client_id s \<and> send_endpoint s' = send_endpoint s)
   \<and> (\<forall>s' c'. SocketLoop cd callback T0 evs (s, c) = Inr (s', c') \<longrightarrow>
         client_id s' = client_id s \<and> send_endpoint s' = send_endpoint s)"
proof (intro conjI allI impI)
  have "EMPTY_MAC_ADDRESS = [0, 0, 0, 0, 0, 0]"
    by (simp add: EMPTY_MAC_ADDRESS_def numeral_eq_Suc)
  then show "\<exists>s'. HandleSend cd ec (Sent n1) (Sent n2) s = Inr s'
       \<and> sent s' = sent s @
           [(Create_PortInfo cd (Request_PortInfo 1 [0, 0, 0, 0]) (client_id s), send_endpoint s),
            (Create_PadData cd (Request_PadData Flags_Id 0 [0, 0, 0, 0, 0, 0]) (client_id s),
             send_endpoint s)]
       \<and> client_id s' = client_id s \<and> send_endpoint s' = send_endpoint s"
    by (simp add: HandleSend_Sent)
next
  fix s' c' assume "SocketLoop cd callback T0 evs (s, c) = Inr (s', c')"
  then have "Loop cd callback evs (StartSend T0 (StartReceive s), c) = Inr (s', c')"
    by (simp add: SocketLoop_def)
  from Loop_identity [OF this]
  show "client_id s' = client_id s" "send_endpoint s' = send_endpoint s"
    by (simp_all add: StartSend_def StartReceive_def)
qed

theorem HandleSend_requests_witness:
  "\<exists>s' c'. SocketLoop example_codec Client_callback 10
       [TimerExpires 0 (Sent 2) (Sent 2), TimerExpires 0 (Sent 2) (Sent 2)]
       (example_socket, client_at 0 None) = Inr (s', c')
     \<and> client_id s' = 7 \<and> send_endpoint s' = (''127.0.0.1'', 26760)
     \<and> sent s' = [([1, 7], ''127.0.0.1'', 26760), ([2, 7], ''127.0.0.1'', 26760),
                  ([1, 7], ''127.0.0.1'', 26760), ([2, 7], ''127.0.0.1'', 26760)]"
proof -
  let ?run = "SocketLoop example_codec Client_callback 10
       [TimerExpires 0 (Sent 2) (Sent 2), TimerExpires 0 (Sent 2) (Sent 2)]
       (example_socket, client_at 0 None)"
  have ev: "map_sum id (sent \<circ> fst) ?run
      = Inr [([1, 7], ''127.0.0.1'', 26760), ([2, 7], ''127.0.0.1'', 26760),
             ([1, 7], ''127.0.0.1'', 26760), ([2, 7], ''127.0.0.1'', 26760)]"
    by (simp add: SocketLoop_def StartSend_def StartReceive_def expire_def HandleSend_Sent)
  then obtain s' c' where r: "?run = Inr (s', c')"
    by (cases ?run) auto
  from HandleSend_requests [where s = example_socket and cd = example_codec
      and callback = Client_callback and ?T0.0 = 10 and c = "client_at 0 None"
      and evs = "[TimerExpires 0 (Sent 2) (Sent 2), TimerExpires 0 (Sent 2) (Sent 2)]",
      THEN conjunct2, rule_format, OF r]
  have "client_id s' = 7" "send_endpoint s' = (''127.0.0.1'', 26760)" by simp_all
  moreover from ev r have "sent s' = [([1, 7], ''127.0.0.1'', 26760), ([2, 7], ''127.0.0.1'', 26760),
             ([1, 7], ''127.0.0.1'', 26760), ([2, 7], ''127.0.0.1'', 26760)]"
    by simp
  ultimately show ?thesis using r by blast
qed

subsection \<open>A send that fails\<close>

text \<open>
  C4. The property: no failure ends the engine from within; a heartbeat send that fails
  is not fatal, the event loop keeps running, and the next scheduled heartbeat is the
  retry. The receive side of the source behaves so: \<^verbatim>\<open>HandleReceive\<close> ignores its
  error code and arms the next receive as its last statement. The send side is written
  the same way, ignoring the error code and calling \<^verbatim>\<open>StartSend\<close> as its last
  statement, but it sends with the overload of \<^verbatim>\<open>send_to\<close> that throws, and nothing
  catches. The evaluation below is the run in which the operating system refuses a
  datagram of the first heartbeat with error 101 (network unreachable), and a second
  heartbeat and a valid datagram would follow. With the first send refused, the run ends
  with the exception in a state in which nothing has been sent and no wait on the timer
  is outstanding; with the second send refused, the port-info request has gone out, the
  pad-data request has not, and again no wait is outstanding. In both, the events that
  would follow are never handled: the client is as it was. \<^verbatim>\<open>Loop\<close> is all that the
  thread's function does after the two arming calls, so the exception leaves the thread
  as well.
\<close>

theorem HandleSend_refused_ends_loop:
  "Loop example_codec Client_callback
     [TimerExpires 0 (Refused 101) (Sent 2), TimerExpires 0 (Sent 2) (Sent 2),
      DatagramArrives 0 [2, 5]]
     (StartSend 0 (StartReceive example_socket), client_at 0 None)
   = Inl (system_error 101,
          (example_socket\<lparr>timer_expiry := 3, timer_waiting := False, receive_waiting := True,
                           send_buffer1 := [1, 7], sent := []\<rparr>,
           client_at 0 None))
   \<and> Loop example_codec Client_callback
       [TimerExpires 0 (Sent 2) (Refused 101), TimerExpires 0 (Sent 2) (Sent 2),
        DatagramArrives 0 [2, 5]]
       (StartSend 0 (StartReceive example_socket), client_at 0 None)
     = Inl (system_error 101,
            (example_socket\<lparr>timer_expiry := 3, timer_waiting := False, receive_waiting := True,
                             send_buffer1 := [1, 7], send_buffer2 := [2, 7],
                             sent := [([1, 7], ''127.0.0.1'', 26760)]\<rparr>,
             client_at 0 None))"
  by (simp add: HandleSend_def send_to_def Let_def expire_def StartSend_def StartReceive_def
      seconds_def)

end
